theory Spec2Isabelle
  imports Main "HOL-Library.Word"
begin

section \<open>Machine types\<close>

text \<open>
  The sources target 64-bit Linux: \<open>size_t\<close> and pointers are 64-bit words, so
  \<open>+\<close>, \<open>-\<close> and \<open>*\<close> wrap modulo \<open>2 ^ 64\<close> as the machine's do. \<open>uint8_t\<close> is
  an 8-bit word. The null pointer is address 0.
\<close>

type_synonym size_t = "64 word"
type_synonym addr = "64 word"
type_synonym uint8_t = "8 word"

definition nullptr :: addr where
  "nullptr = 0"

text \<open>\<open>sizeof(size_t)\<close>, the platform word size.\<close>

definition sizeof_size_t :: size_t where
  "sizeof_size_t = 8"

text \<open>
  An \<open>assert\<close> that fails aborts the program; the model returns \<open>Inl AssertionFailed\<close>
  in its place (a build with assertions enabled).
\<close>

datatype error = AssertionFailed

section \<open>Declarations outside \<open>msg_buffer.h\<close> and \<open>nexus.h\<close>\<close>

text \<open>
  \<open>pkthdr.h\<close>: the packet header. Only its \<open>magic\<close> field is read by
  \<open>msg_buffer.h\<close>; the remaining fields are not represented.
\<close>

record pkthdr_t =
  magic :: "64 word"

text \<open>
  \<open>util/buffer.h\<close>: the backing buffer, of which \<open>msg_buffer.h\<close> reads \<open>buf\<close> and
  \<open>class_size\<close>.
\<close>

record Buffer =
  buf :: addr
  class_size :: size_t

text \<open>
  What \<open>msg_buffer.h\<close> takes from headers that are not among the sources is kept as a
  parameter of every operation: \<open>sizeof(pkthdr_t)\<close> and \<open>kPktHdrMagic\<close> of
  \<open>pkthdr.h\<close>, and the value returned by \<open>Buffer::get_invalid_buffer()\<close> of
  \<open>util/buffer.h\<close>.
\<close>

record decls =
  sizeof_pkthdr_t :: size_t
  kPktHdrMagic :: "64 word"
  get_invalid_buffer :: Buffer

text \<open>
  Modelled from the spec: \<open>round_up\<close> of \<open>common.h\<close> is missing from the sources. The
  spec calls \<open>round_up<sizeof(size_t)>\<close> \<open>round_up_word\<close>, the size rounded up to the
  platform word size: the next multiple of \<open>p\<close>, computed in \<open>size_t\<close>.
\<close>

definition round_up :: "size_t \<Rightarrow> size_t \<Rightarrow> size_t" where
  "round_up p x = (x + (p - 1)) div p * p"

text \<open>
  Memory, as a \<open>pkthdr_t *\<close> sees it: the header read through a pointer to each
  address. No operation of \<open>msg_buffer.h\<close> writes memory, so it is an argument of the
  operations that read it and never a result.
\<close>

type_synonym memory = "addr \<Rightarrow> pkthdr_t"

section \<open>\<open>msg_buffer.h\<close>: class \<open>MsgBuffer\<close>\<close>

text \<open>
  The union of \<open>pkts_queued\<close> and \<open>pkts_rcvd\<close> is one \<open>size_t\<close> cell read under
  two names.
\<close>

record MsgBuffer =
  buf :: addr
  buffer :: Buffer
  max_data_size :: size_t
  data_size :: size_t
  max_num_pkts :: size_t
  num_pkts :: size_t
  pkts_queued :: size_t

definition pkts_rcvd :: "MsgBuffer \<Rightarrow> size_t" where
  "pkts_rcvd m = pkts_queued m"

text \<open>
  \<open>get_invalid_msgbuf\<close>: a default-constructed object, whose fields are whatever they
  happen to be (\<open>m0\<close>), with \<open>buf\<close> set to null.
\<close>

definition get_invalid_msgbuf :: "MsgBuffer \<Rightarrow> MsgBuffer" where
  "get_invalid_msgbuf m0 = m0\<lparr>MsgBuffer.buf := nullptr\<rparr>"

definition get_pkthdr_0 :: "decls \<Rightarrow> MsgBuffer \<Rightarrow> addr" where
  "get_pkthdr_0 c m = MsgBuffer.buf m - sizeof_pkthdr_t c"

definition get_pkthdr_n :: "decls \<Rightarrow> MsgBuffer \<Rightarrow> size_t \<Rightarrow> error + addr" where
  "get_pkthdr_n c m n =
     (if \<not> (n \<ge> 1) then Inl AssertionFailed
      else Inr (MsgBuffer.buf m + round_up sizeof_size_t (max_data_size m) +
                (n - 1) * sizeof_pkthdr_t c))"

definition is_valid :: "decls \<Rightarrow> memory \<Rightarrow> MsgBuffer \<Rightarrow> bool" where
  "is_valid c mem m =
     (if MsgBuffer.buf m = nullptr then False
      else if magic (mem (get_pkthdr_0 c m)) \<noteq> kPktHdrMagic c then False
      else True)"

definition get_data_size :: "MsgBuffer \<Rightarrow> size_t" where
  "get_data_size m = data_size m"

text \<open>
  The constructor from a \<open>Buffer\<close>: the member initialisers build the object, then the
  three assertions run in the order of the source.
\<close>

definition MsgBuffer_of_Buffer :: "decls \<Rightarrow> Buffer \<Rightarrow> size_t \<Rightarrow> size_t \<Rightarrow> error + MsgBuffer" where
  "MsgBuffer_of_Buffer c b max_data max_pkts =
     (let m = \<lparr>MsgBuffer.buf = Buffer.buf b + sizeof_pkthdr_t c,
                buffer = b,
                max_data_size = max_data,
                data_size = max_data,
                max_num_pkts = max_pkts,
                num_pkts = max_pkts,
                pkts_queued = 0\<rparr>
      in if \<not> (Buffer.buf b \<noteq> nullptr) then Inl AssertionFailed
         else if \<not> (max_pkts \<ge> 1) then Inl AssertionFailed
         else if \<not> (class_size b \<ge> max_data + max_pkts * sizeof_pkthdr_t c)
           then Inl AssertionFailed
         else Inr m)"

text \<open>The constructor from a received packet.\<close>

definition MsgBuffer_of_pkt :: "decls \<Rightarrow> addr \<Rightarrow> size_t \<Rightarrow> error + MsgBuffer" where
  "MsgBuffer_of_pkt c pkt max_data =
     (let m = \<lparr>MsgBuffer.buf = pkt + sizeof_pkthdr_t c,
                buffer = get_invalid_buffer c,
                max_data_size = max_data,
                data_size = max_data,
                max_num_pkts = 1,
                num_pkts = 1,
                pkts_queued = 0\<rparr>
      in if \<not> (MsgBuffer.buf m \<noteq> nullptr) then Inl AssertionFailed
         else Inr m)"

definition resize :: "MsgBuffer \<Rightarrow> size_t \<Rightarrow> size_t \<Rightarrow> error + MsgBuffer" where
  "resize m new_data_size new_num_pkts =
     (if \<not> (new_data_size \<le> max_data_size m) then Inl AssertionFailed
      else if \<not> (new_num_pkts \<le> max_num_pkts m) then Inl AssertionFailed
      else Inr (m\<lparr>data_size := new_data_size, num_pkts := new_num_pkts\<rparr>))"

subsection \<open>Regions of the layout\<close>

text \<open>
  The bytes of the payload, \<open>[buf, buf + max_data_size)\<close>, and of a header at address
  \<open>a\<close>, \<open>[a, a + sizeof(pkthdr_t))\<close>, as sets of byte addresses read as numbers.
\<close>

definition payload_region :: "MsgBuffer \<Rightarrow> nat set" where
  "payload_region m =
     {unat (MsgBuffer.buf m) ..< unat (MsgBuffer.buf m) + unat (max_data_size m)}"

definition pkthdr_region :: "decls \<Rightarrow> addr \<Rightarrow> nat set" where
  "pkthdr_region c a = {unat a ..< unat a + unat (sizeof_pkthdr_t c)}"

text \<open>
  The extent of the whole layout
  \<open>[pkthdr_0 | payload | pad | pkthdr_1 .. pkthdr_{N-1}]\<close>, counted without
  wrap-around.
\<close>

definition layout_size :: "decls \<Rightarrow> size_t \<Rightarrow> size_t \<Rightarrow> nat" where
  "layout_size c max_data max_pkts =
     unat (sizeof_pkthdr_t c) + (unat max_data + 7) div 8 * 8 +
     (unat max_pkts - 1) * unat (sizeof_pkthdr_t c)"

section \<open>\<open>nexus.h\<close>: what the header itself defines\<close>

text \<open>
  \<open>ENetPeer\<close> is the control-transport library's peer; \<open>nexus.h\<close> reads only its
  opaque \<open>data\<close> pointer. The argument of \<open>sm_is_peer_mode_server\<close> is the peer that
  the pointer \<open>e\<close> refers to.
\<close>

record ENetPeer =
  data :: addr

definition sm_is_peer_mode_server :: "ENetPeer \<Rightarrow> bool" where
  "sm_is_peer_mode_server e = (data e = nullptr)"

definition kNexusSmThreadCore :: nat where
  "kNexusSmThreadCore = 15"

datatype BgWorkItemType = kReq | kResp

record BgWorkItem =
  wi_type :: BgWorkItemType
  rpc :: addr
  context' :: addr
  sslot :: addr

definition is_req :: "BgWorkItem \<Rightarrow> bool" where
  "is_req wi = (wi_type wi = kReq)"

text \<open>
  Modelled from the spec: \<open>SmPkt\<close> of \<open>sm_types.h\<close> is missing from the sources.
  The spec makes it a tagged record of a control message; of it the SM thread reads
  the kind, the remote hostname that keys the destination peer, and the destination
  endpoint ID.
\<close>

datatype SmPktKind =
  ConnectRequest | ConnectResponse | DisconnectRequest | DisconnectResponse | Reset

record SmPkt =
  pkt_kind :: SmPktKind
  dest_hostname :: string
  dest_rpc_id :: uint8_t

text \<open>\<open>SmWorkItem\<close>; \<open>epeer\<close> is a pointer to the control transport's peer.\<close>

record SmWorkItem =
  rpc_id :: uint8_t
  sm_pkt :: SmPkt
  epeer :: addr

text \<open>\<open>SmENetPeerData\<close>, the metadata kept in client-mode peers.\<close>

record SmENetPeerData =
  rem_hostname :: string
  connected :: bool
  wi_tx_queue :: "SmWorkItem list"

text \<open>
  \<open>Hook\<close>: the endpoint's id and the two references that the Nexus installs, null
  until then. The array \<open>bg_req_list_arr\<close> is a list of pointers. The endpoint's own
  \<open>sm_rx_list\<close> is kept with the SM thread's state below, by endpoint ID.
\<close>

record Hook =
  rpc_id :: uint8_t
  bg_req_list_arr :: "addr list"
  sm_tx_list :: addr

section \<open>\<open>Nexus\<close>: registration, from the spec\<close>

text \<open>
  \<open>nexus.h\<close> declares \<open>register_req_func\<close>, \<open>register_hook\<close>, \<open>unregister_hook\<close>
  and \<open>rpc_id_exists\<close> and gives the members their initial values; the bodies are in
  a file that is not among the sources. They are modelled from the spec's sections 4.4
  and 4.5, one call at a time: the Nexus lock that each of them takes is not
  represented.
\<close>

text \<open>
  Modelled from the spec: the type \<open>ReqFunc\<close> is missing from the sources. A handler
  is invalid when it is empty or null; here it is its function pointer, and a slot of
  the table is occupied when the pointer in it is not null.
\<close>

record ReqFunc =
  req_func :: addr

text \<open>
  The members of \<open>Nexus\<close> that registration reads or writes. The arrays
  \<open>req_func_arr\<close> and \<open>reg_hooks_arr\<close> are indexed by a \<open>uint8_t\<close>; an entry of
  \<open>reg_hooks_arr\<close> is \<open>None\<close> for a null pointer and the registered hook otherwise.
  \<open>sm_tx_list_ref\<close> and \<open>bg_req_list_refs\<close> are the addresses of the SM thread's TX
  list and of the background threads' request lists.
\<close>

record Nexus =
  num_bg_threads :: size_t
  req_func_arr :: "uint8_t \<Rightarrow> ReqFunc"
  req_func_registration_allowed :: bool
  reg_hooks_arr :: "uint8_t \<Rightarrow> Hook option"
  sm_tx_list_ref :: addr
  bg_req_list_refs :: "addr list"

text \<open>
  Modelled from the spec: the constructor of \<open>Nexus\<close> is missing from the sources.
  This is the object after a construction that did not fail, with the member
  initialisers of \<open>nexus.h\<close>: \<open>req_func_registration_allowed = true\<close>,
  \<open>reg_hooks_arr = {nullptr}\<close>, and a table of empty handlers.
\<close>

definition Nexus_new :: "addr \<Rightarrow> addr list \<Rightarrow> Nexus" where
  "Nexus_new sm_tx bg_lists =
     \<lparr>num_bg_threads = of_nat (length bg_lists),
      req_func_arr = (\<lambda>t. \<lparr>req_func = nullptr\<rparr>),
      req_func_registration_allowed = True,
      reg_hooks_arr = (\<lambda>i. None),
      sm_tx_list_ref = sm_tx,
      bg_req_list_refs = bg_lists\<rparr>"

text \<open>
  The three failures of \<open>register_req_func\<close>. The function returns 0 or a negative
  errno; the spec names the failures and not the numbers, so the result is \<open>Inr ()\<close>
  for 0 and \<open>Inl\<close> of the failure for the negative errno.
\<close>

datatype reg_error = RegistrationClosed | SlotOccupied | InvalidHandler

text \<open>
  Modelled from the spec: the body of \<open>register_req_func\<close> is missing from the
  sources. Rejected if registration is no longer allowed; rejected if the slot is
  occupied; rejected if the handler is invalid; otherwise the handler is installed and
  the window stays open.
\<close>

definition register_req_func ::
    "uint8_t \<Rightarrow> ReqFunc \<Rightarrow> Nexus \<Rightarrow> (reg_error + unit) \<times> Nexus" where
  "register_req_func req_type f s =
     (if req_func_registration_allowed s = False then (Inl RegistrationClosed, s)
      else if req_func (req_func_arr s req_type) \<noteq> nullptr then (Inl SlotOccupied, s)
      else if req_func f = nullptr then (Inl InvalidHandler, s)
      else (Inr (), s\<lparr>req_func_arr := (req_func_arr s)(req_type := f)\<rparr>))"

text \<open>
  Modelled from the spec: the body of \<open>register_hook\<close> is missing from the sources.
  It asserts that the slot of the hook's id is null, installs in the hook the
  reference to the SM TX list and to each background thread's request list, closes
  the registration window and stores the hook in the registry.
\<close>

definition register_hook :: "Hook \<Rightarrow> Nexus \<Rightarrow> error + (Hook \<times> Nexus)" where
  "register_hook hook s =
     (if reg_hooks_arr s (rpc_id hook) \<noteq> None then Inl AssertionFailed
      else
        let hook' = hook\<lparr>sm_tx_list := sm_tx_list_ref s,
                         bg_req_list_arr := bg_req_list_refs s @
                           drop (length (bg_req_list_refs s)) (bg_req_list_arr hook)\<rparr>
        in Inr (hook',
                s\<lparr>req_func_registration_allowed := False,
                  reg_hooks_arr := (reg_hooks_arr s)(rpc_id hook \<mapsto> hook')\<rparr>))"

text \<open>
  Modelled from the spec: the body of \<open>unregister_hook\<close> is missing from the sources.
  It clears the slot.
\<close>

definition unregister_hook :: "Hook \<Rightarrow> Nexus \<Rightarrow> Nexus" where
  "unregister_hook hook s = s\<lparr>reg_hooks_arr := (reg_hooks_arr s)(rpc_id hook := None)\<rparr>"

text \<open>
  Modelled from the spec: the body of \<open>rpc_id_exists\<close> is missing from the sources.
  It returns whether the slot is occupied.
\<close>

definition rpc_id_exists :: "uint8_t \<Rightarrow> Nexus \<Rightarrow> bool" where
  "rpc_id_exists i s = (reg_hooks_arr s i \<noteq> None)"

text \<open>
  A program's calls on one Nexus, in order. A failed assertion ends the run; a
  \<open>register_req_func\<close> that returns an error does not.
\<close>

datatype nexus_op =
    is_RegisterReqFunc: RegisterReqFunc uint8_t ReqFunc
  | is_RegisterHook: RegisterHook Hook
  | is_UnregisterHook: UnregisterHook Hook
  | is_RpcIdExists: RpcIdExists uint8_t

fun nexus_step :: "nexus_op \<Rightarrow> Nexus \<Rightarrow> error + Nexus" where
  "nexus_step (RegisterReqFunc t f) s = Inr (snd (register_req_func t f s))"
| "nexus_step (RegisterHook h) s =
     (case register_hook h s of Inl e \<Rightarrow> Inl e | Inr (h', s') \<Rightarrow> Inr s')"
| "nexus_step (UnregisterHook h) s = Inr (unregister_hook h s)"
| "nexus_step (RpcIdExists i) s = Inr s"

fun nexus_run :: "nexus_op list \<Rightarrow> Nexus \<Rightarrow> error + Nexus" where
  "nexus_run [] s = Inr s"
| "nexus_run (op # ops) s =
     (case nexus_step op s of Inl e \<Rightarrow> Inl e | Inr s' \<Rightarrow> nexus_run ops s')"

section \<open>The session-management thread, from the spec\<close>

text \<open>
  \<open>nexus.h\<close> declares the SM thread's functions; their bodies are in a file that is
  not among the sources. They are modelled from the spec's section 4.6, one popped
  work item or one control-transport event at a time. The handlers tell the two kinds
  of peer apart with \<open>sm_is_peer_mode_server\<close>, the function of \<open>nexus.h\<close>.
\<close>

text \<open>
  How a peer of the control transport came to be: \<open>ClientMode\<close> for a peer that the
  SM thread created by an outbound connect, \<open>ServerMode\<close> for an inbound peer that
  the transport created. The transport's record of a peer is its \<open>ENetPeer\<close> together
  with this mode, which no handler reads.
\<close>

datatype peer_mode = ServerMode | ClientMode

record SmPeer =
  enet :: ENetPeer
  mode :: peer_mode

text \<open>
  Modelled from the spec: the control transport's host and the heap are not among the
  sources. Of \<open>SmThreadCtx\<close>: \<open>name_map\<close> as in \<open>nexus.h\<close>; the live peers of \<open>enet_host\<close>,
  by their address; the allocated \<open>SmENetPeerData\<close> objects, by their address; the
  packets handed to the transport's reliable send, in order; and the SM RX lists of
  the endpoints, by endpoint ID.
\<close>

record SmThreadCtx =
  name_map :: "string \<rightharpoonup> addr"
  peers :: "addr \<rightharpoonup> SmPeer"
  peer_data :: "addr \<rightharpoonup> SmENetPeerData"
  sent :: "(addr \<times> SmPkt) list"
  sm_rx_lists :: "uint8_t \<Rightarrow> SmWorkItem list"

definition SmThreadCtx_new :: SmThreadCtx where
  "SmThreadCtx_new =
     \<lparr>name_map = Map.empty, peers = Map.empty, peer_data = Map.empty,
      sent = [], sm_rx_lists = (\<lambda>i. [])\<rparr>"

text \<open>
  What can stop the SM thread's step: the transport has no peer to give to an
  outbound connect, the allocation of the metadata fails, or an event names a peer
  that is not live.
\<close>

datatype sm_error = ConnectFailed | AllocFailed | BadPeer

text \<open>
  Modelled from the spec: the body of \<open>sm_thread_tx_and_free\<close> is missing from the
  sources. It sends the work item's packet reliably on the peer.
\<close>

definition sm_thread_tx_and_free :: "addr \<Rightarrow> SmWorkItem \<Rightarrow> SmThreadCtx \<Rightarrow> SmThreadCtx" where
  "sm_thread_tx_and_free p wi ctx = ctx\<lparr>sent := sent ctx @ [(p, sm_pkt wi)]\<rparr>"

text \<open>
  Modelled from the spec: the body of \<open>sm_thread_tx\<close> is missing from the sources;
  this is its treatment of one popped work item. If the destination hostname has no
  peer yet, it initiates an outbound connect, allocates the client metadata (remote
  hostname, not connected, the pending queue) and puts the item on the pending
  queue; else if the peer is connected it sends the packet; else it puts the item on
  the pending queue. \<open>new_peer\<close> is the peer that the transport's connect returns and
  \<open>new_data\<close> the address that the allocation returns, both not null and not in use
  when they succeed.
\<close>

definition sm_thread_tx_item ::
    "addr \<Rightarrow> addr \<Rightarrow> SmWorkItem \<Rightarrow> SmThreadCtx \<Rightarrow> sm_error + SmThreadCtx" where
  "sm_thread_tx_item new_peer new_data wi ctx =
     (case name_map ctx (dest_hostname (sm_pkt wi)) of
        None \<Rightarrow>
          if new_peer = nullptr then Inl ConnectFailed
          else if peers ctx new_peer \<noteq> None then Inl ConnectFailed
          else if new_data = nullptr then Inl AllocFailed
          else if peer_data ctx new_data \<noteq> None then Inl AllocFailed
          else Inr (ctx\<lparr>name_map := (name_map ctx)(dest_hostname (sm_pkt wi) \<mapsto> new_peer),
                        peers := (peers ctx)(new_peer \<mapsto>
                                   \<lparr>enet = \<lparr>data = new_data\<rparr>, mode = ClientMode\<rparr>),
                        peer_data := (peer_data ctx)(new_data \<mapsto>
                                   \<lparr>rem_hostname = dest_hostname (sm_pkt wi),
                                    connected = False,
                                    wi_tx_queue = [wi]\<rparr>)\<rparr>)
      | Some p \<Rightarrow>
          (case peers ctx p of
             None \<Rightarrow> Inl BadPeer
           | Some pr \<Rightarrow>
               (case peer_data ctx (data (enet pr)) of
                  None \<Rightarrow> Inl BadPeer
                | Some d \<Rightarrow>
                    if connected d then Inr (sm_thread_tx_and_free p wi ctx)
                    else Inr (ctx\<lparr>peer_data := (peer_data ctx)(data (enet pr) \<mapsto>
                                     d\<lparr>wi_tx_queue := wi_tx_queue d @ [wi]\<rparr>)\<rparr>))))"

text \<open>
  Modelled from the spec: the control transport is not among the sources. An inbound
  connection makes a peer whose opaque pointer is null.
\<close>

definition enet_accept :: "addr \<Rightarrow> SmThreadCtx \<Rightarrow> SmThreadCtx" where
  "enet_accept p ctx =
     ctx\<lparr>peers := (peers ctx)(p \<mapsto> \<lparr>enet = \<lparr>data = nullptr\<rparr>, mode = ServerMode\<rparr>)\<rparr>"

text \<open>
  Modelled from the spec: the body of \<open>sm_thread_handle_connect\<close> is missing from the
  sources. For a client-mode peer it marks the peer connected and flushes the pending
  queue; for a server-mode peer it does nothing.
\<close>

definition sm_thread_handle_connect :: "addr \<Rightarrow> SmThreadCtx \<Rightarrow> sm_error + SmThreadCtx" where
  "sm_thread_handle_connect p ctx =
     (case peers ctx p of
        None \<Rightarrow> Inl BadPeer
      | Some pr \<Rightarrow>
          if sm_is_peer_mode_server (enet pr) then Inr ctx
          else
            (case peer_data ctx (data (enet pr)) of
               None \<Rightarrow> Inl BadPeer
             | Some d \<Rightarrow>
                 Inr (ctx\<lparr>peer_data := (peer_data ctx)(data (enet pr) \<mapsto>
                             d\<lparr>connected := True, wi_tx_queue := []\<rparr>),
                          sent := sent ctx @ map (\<lambda>wi. (p, sm_pkt wi)) (wi_tx_queue d)\<rparr>)))"

text \<open>
  Modelled from the spec: the body of \<open>sm_thread_handle_receive\<close> is missing from the
  sources. It looks up the packet's destination endpoint; if a hook is registered for
  it, it puts a work item on that endpoint's SM RX list, else it drops the packet.
\<close>

definition sm_thread_handle_receive ::
    "Nexus \<Rightarrow> addr \<Rightarrow> SmPkt \<Rightarrow> SmThreadCtx \<Rightarrow> sm_error + SmThreadCtx" where
  "sm_thread_handle_receive nx p pkt ctx =
     (case peers ctx p of
        None \<Rightarrow> Inl BadPeer
      | Some pr \<Rightarrow>
          if rpc_id_exists (dest_rpc_id pkt) nx
          then Inr (ctx\<lparr>sm_rx_lists := (sm_rx_lists ctx)(dest_rpc_id pkt :=
                      sm_rx_lists ctx (dest_rpc_id pkt) @
                      [\<lparr>SmWorkItem.rpc_id = dest_rpc_id pkt, sm_pkt = pkt, epeer = p\<rparr>])\<rparr>)
          else Inr ctx)"

text \<open>
  Modelled from the spec: the body of \<open>sm_thread_handle_disconnect\<close> is missing from
  the sources. For a client-mode peer it releases the metadata and removes the
  hostname mapping; for a server-mode peer there is nothing to release. After the
  event the peer is no longer live.
\<close>

definition sm_thread_handle_disconnect :: "addr \<Rightarrow> SmThreadCtx \<Rightarrow> sm_error + SmThreadCtx" where
  "sm_thread_handle_disconnect p ctx =
     (case peers ctx p of
        None \<Rightarrow> Inl BadPeer
      | Some pr \<Rightarrow>
          if sm_is_peer_mode_server (enet pr)
          then Inr (ctx\<lparr>peers := (peers ctx)(p := None)\<rparr>)
          else
            (case peer_data ctx (data (enet pr)) of
               None \<Rightarrow> Inl BadPeer
             | Some d \<Rightarrow>
                 Inr (ctx\<lparr>name_map := (name_map ctx)(rem_hostname d := None),
                          peers := (peers ctx)(p := None),
                          peer_data := (peer_data ctx)(data (enet pr) := None)\<rparr>)))"

text \<open>
  Modelled from the spec: the bodies of \<open>sm_thread_func\<close> and \<open>sm_thread_rx\<close> are
  missing from the sources. This is the work of the event loop, item by item: a work
  item popped from the SM TX list, with
  the answers of the transport and of the allocator should a connect be needed, or an
  event of the control transport. A connect event for a peer that is not live yet is
  an inbound connection: the transport makes the peer, then the handler runs.
\<close>

datatype sm_event =
    EvTx SmWorkItem addr addr
  | EvConnect addr
  | EvReceive addr SmPkt
  | EvDisconnect addr

fun sm_thread_step :: "Nexus \<Rightarrow> sm_event \<Rightarrow> SmThreadCtx \<Rightarrow> sm_error + SmThreadCtx" where
  "sm_thread_step nx (EvTx wi new_peer new_data) ctx = sm_thread_tx_item new_peer new_data wi ctx"
| "sm_thread_step nx (EvConnect p) ctx =
     (case peers ctx p of
        None \<Rightarrow> if p = nullptr then Inl BadPeer
                else sm_thread_handle_connect p (enet_accept p ctx)
      | Some pr \<Rightarrow> sm_thread_handle_connect p ctx)"
| "sm_thread_step nx (EvReceive p pkt) ctx = sm_thread_handle_receive nx p pkt ctx"
| "sm_thread_step nx (EvDisconnect p) ctx = sm_thread_handle_disconnect p ctx"

fun sm_thread_run :: "Nexus \<Rightarrow> sm_event list \<Rightarrow> SmThreadCtx \<Rightarrow> sm_error + SmThreadCtx" where
  "sm_thread_run nx [] ctx = Inr ctx"
| "sm_thread_run nx (ev # evs) ctx =
     (case sm_thread_step nx ev ctx of
        Inl e \<Rightarrow> Inl e
      | Inr ctx' \<Rightarrow> sm_thread_run nx evs ctx')"

text \<open>
  What every step keeps: a live peer is server-mode exactly when its opaque pointer
  is null, the pointer of a client-mode peer is that of an allocated metadata object,
  and two client-mode peers do not share one.
\<close>

definition peers_wf :: "(addr \<rightharpoonup> SmPeer) \<Rightarrow> addr set \<Rightarrow> bool" where
  "peers_wf P D =
     ((\<forall>p pr. P p = Some pr \<longrightarrow> (mode pr = ServerMode) = (data (enet pr) = nullptr)) \<and>
      (\<forall>p pr. P p = Some pr \<longrightarrow> mode pr = ClientMode \<longrightarrow> data (enet pr) \<in> D) \<and>
      (\<forall>p q pr qr. P p = Some pr \<longrightarrow> P q = Some qr \<longrightarrow>
          mode pr = ClientMode \<longrightarrow> mode qr = ClientMode \<longrightarrow>
          data (enet pr) = data (enet qr) \<longrightarrow> p = q))"

definition peers_consistent :: "SmThreadCtx \<Rightarrow> bool" where
  "peers_consistent ctx = peers_wf (peers ctx) (dom (peer_data ctx))"

section \<open>Concrete inputs\<close>

text \<open>
  A 16-byte header with magic 11, a backing buffer of class size 8192 at address
  \<open>0x100000\<close>, the Message Buffer that the constructor builds on it for 4096 bytes
  and 3 packets, a received packet at \<open>0x200000\<close>, memory that holds zeroes and
  memory whose headers all carry the magic.
\<close>

definition ex_decls :: decls where
  "ex_decls = \<lparr>sizeof_pkthdr_t = 16, kPktHdrMagic = 11,
               get_invalid_buffer = \<lparr>Buffer.buf = 0, class_size = 0\<rparr>\<rparr>"

definition ex_buffer :: Buffer where
  "ex_buffer = \<lparr>Buffer.buf = 1048576, class_size = 8192\<rparr>"

definition ex_msgbuf :: MsgBuffer where
  "ex_msgbuf = \<lparr>MsgBuffer.buf = 1048592, buffer = ex_buffer,
                max_data_size = 4096, data_size = 4096,
                max_num_pkts = 3, num_pkts = 3, pkts_queued = 0\<rparr>"

definition ex_pkt :: addr where
  "ex_pkt = 2097152"

definition zero_memory :: memory where
  "zero_memory = (\<lambda>a. \<lparr>magic = 0\<rparr>)"

definition stamped_memory :: memory where
  "stamped_memory = (\<lambda>a. \<lparr>magic = 11\<rparr>)"

text \<open>
  A Nexus with two background threads, a handler, an empty handler, the hook of
  endpoint 5 before and after registration, and the Nexus after handler 1 and after
  the hook have been registered.
\<close>

definition ex_handler :: ReqFunc where
  "ex_handler = \<lparr>req_func = 4198400\<rparr>"

definition ex_empty_handler :: ReqFunc where
  "ex_empty_handler = \<lparr>req_func = nullptr\<rparr>"

definition ex_hook :: Hook where
  "ex_hook = \<lparr>rpc_id = 5, bg_req_list_arr = [0, 0, 0, 0], sm_tx_list = 0\<rparr>"

definition ex_nexus :: Nexus where
  "ex_nexus = Nexus_new 6291456 [6295552, 6299648]"

definition ex_hook_installed :: Hook where
  "ex_hook_installed =
     \<lparr>rpc_id = 5, bg_req_list_arr = [6295552, 6299648, 0, 0], sm_tx_list = 6291456\<rparr>"

definition ex_nexus_1 :: Nexus where
  "ex_nexus_1 = ex_nexus\<lparr>req_func_arr := (req_func_arr ex_nexus)(1 := ex_handler)\<rparr>"

definition ex_nexus_closed :: Nexus where
  "ex_nexus_closed =
     ex_nexus_1\<lparr>req_func_registration_allowed := False,
                reg_hooks_arr := (reg_hooks_arr ex_nexus_1)(5 \<mapsto> ex_hook_installed)\<rparr>"

text \<open>
  A run of the SM thread beside the Nexus on which endpoint 5 is registered: a
  connect request for \<open>hostB\<close> is popped, the outbound peer at \<open>0x700000\<close> gets
  metadata at \<open>0x800000\<close> and connects, and an inbound peer at \<open>0x701000\<close> connects
  and delivers a packet for endpoint 5.
\<close>

definition ex_tx_pkt :: SmPkt where
  "ex_tx_pkt = \<lparr>pkt_kind = ConnectRequest, dest_hostname = ''hostB'', dest_rpc_id = 9\<rparr>"

definition ex_rx_pkt :: SmPkt where
  "ex_rx_pkt = \<lparr>pkt_kind = ConnectRequest, dest_hostname = ''hostA'', dest_rpc_id = 5\<rparr>"

definition ex_tx_item :: SmWorkItem where
  "ex_tx_item = \<lparr>SmWorkItem.rpc_id = 7, sm_pkt = ex_tx_pkt, epeer = nullptr\<rparr>"

definition ex_sm_events :: "sm_event list" where
  "ex_sm_events =
     [EvTx ex_tx_item 7340032 8388608, EvConnect 7340032, EvConnect 7344128,
      EvReceive 7344128 ex_rx_pkt]"

definition ex_client_peer :: SmPeer where
  "ex_client_peer = \<lparr>enet = \<lparr>data = 8388608\<rparr>, mode = ClientMode\<rparr>"

definition ex_server_peer :: SmPeer where
  "ex_server_peer = \<lparr>enet = \<lparr>data = nullptr\<rparr>, mode = ServerMode\<rparr>"

definition ex_sm_ctx :: SmThreadCtx where
  "ex_sm_ctx =
     \<lparr>name_map = [''hostB'' \<mapsto> 7340032],
      peers = [7340032 \<mapsto> ex_client_peer, 7344128 \<mapsto> ex_server_peer],
      peer_data = [8388608 \<mapsto>
                    \<lparr>rem_hostname = ''hostB'', connected = True, wi_tx_queue = []\<rparr>],
      sent = [(7340032, ex_tx_pkt)],
      sm_rx_lists = (\<lambda>i. [])(5 :=
                    [\<lparr>SmWorkItem.rpc_id = 5, sm_pkt = ex_rx_pkt, epeer = 7344128\<rparr>])\<rparr>"

section \<open>Properties of \<open>MsgBuffer\<close>\<close>

subsection \<open>What the constructors return\<close>

lemma ctor_eq:
  "MsgBuffer_of_Buffer c b D N = Inr m \<Longrightarrow>
     m = \<lparr>MsgBuffer.buf = Buffer.buf b + sizeof_pkthdr_t c, buffer = b,
          max_data_size = D, data_size = D, max_num_pkts = N, num_pkts = N,
          pkts_queued = 0\<rparr>"
  by (simp add: MsgBuffer_of_Buffer_def Let_def split: if_splits)

lemma rx_ctor_eq:
  "MsgBuffer_of_pkt c pkt D = Inr m \<Longrightarrow>
     m = \<lparr>MsgBuffer.buf = pkt + sizeof_pkthdr_t c, buffer = get_invalid_buffer c,
          max_data_size = D, data_size = D, max_num_pkts = 1, num_pkts = 1,
          pkts_queued = 0\<rparr> \<and> pkt + sizeof_pkthdr_t c \<noteq> nullptr"
  by (simp add: MsgBuffer_of_pkt_def Let_def split: if_splits)

lemma ex_ctor: "MsgBuffer_of_Buffer ex_decls ex_buffer 4096 3 = Inr ex_msgbuf"
  by (simp add: MsgBuffer_of_Buffer_def ex_decls_def ex_buffer_def ex_msgbuf_def nullptr_def)

lemma get_invalid_msgbuf_not_valid: "is_valid c mem (get_invalid_msgbuf m0) = False"
  by (simp add: is_valid_def get_invalid_msgbuf_def)

subsection \<open>Word arithmetic of the layout\<close>

lemma round_up_4096: "round_up sizeof_size_t 4096 = 4096"
  by (simp add: round_up_def sizeof_size_t_def)

lemma unat_round_up:
  fixes x :: size_t
  assumes "unat x + 7 < 2 ^ 64"
  shows "unat (round_up sizeof_size_t x) = (unat x + 7) div 8 * 8"
proof -
  have a: "unat (x + 7) = unat x + 7"
    using assms by (simp add: unat_word_ariths)
  have b: "unat ((x + 7) div 8) = (unat x + 7) div 8"
    by (simp add: unat_div a)
  have c: "(unat x + 7) div 8 * 8 < 2 ^ 64"
    using assms by arith
  show ?thesis
    using c by (simp add: round_up_def sizeof_size_t_def unat_word_ariths b)
qed

lemma round_up_nat_ge: "(n::nat) \<le> (n + 7) div 8 * 8"
  by arith

lemma unat_pkthdr_n:
  fixes base S D i N :: size_t
  assumes i: "1 \<le> i" "i < N"
    and fit: "unat base + (unat S + (unat D + 7) div 8 * 8 + (unat N - 1) * unat S) < 2 ^ 64"
  shows "unat (base + S + round_up sizeof_size_t D + (i - 1) * S) =
         unat base + unat S + (unat D + 7) div 8 * 8 + (unat i - 1) * unat S"
proof -
  define r where "r = (unat D + 7) div 8 * 8"
  define t where "t = (unat i - 1) * unat S"
  define u where "u = (unat N - 1) * unat S"
  have fit': "unat base + (unat S + r + u) < 2 ^ 64"
    using fit by (simp add: r_def u_def)
  have iN: "unat i < unat N" using i(2) by (simp add: word_less_nat_alt)
  have i1: "unat (i - 1) = unat i - 1"
    using i(1) by (simp add: unat_sub)
  have le: "t \<le> u"
    unfolding t_def u_def using iN by (intro mult_right_mono) auto
  have D7: "unat D + 7 < 2 ^ 64"
  proof -
    have "r < 18446744073709551616" using fit' by simp
    then have "unat D + 7 < 18446744073709551616" unfolding r_def by arith
    then show ?thesis by simp
  qed
  have r: "unat (round_up sizeof_size_t D) = r"
    unfolding r_def by (rule unat_round_up [OF D7])
  have tb: "t < 2 ^ 64" using fit' le by linarith
  have m: "unat ((i - 1) * S) = t"
    using tb by (simp add: unat_word_ariths i1 t_def)
  have s1b: "unat base + unat S < 2 ^ 64" using fit' by linarith
  have s1: "unat (base + S) = unat base + unat S"
    using s1b by (simp add: unat_word_ariths)
  have s2b: "unat base + unat S + r < 2 ^ 64" using fit' by linarith
  have s2: "unat (base + S + round_up sizeof_size_t D) = unat base + unat S + r"
    using s2b unat_word_ariths(1) [of "base + S" "round_up sizeof_size_t D"]
    by (simp add: s1 r)
  have s3b: "unat base + unat S + r + t < 2 ^ 64" using fit' le by linarith
  have "unat (base + S + round_up sizeof_size_t D + (i - 1) * S) = unat base + unat S + r + t"
    using s3b unat_word_ariths(1) [of "base + S + round_up sizeof_size_t D" "(i - 1) * S"]
    by (simp add: s2 m)
  then show ?thesis by (simp add: r_def t_def)
qed

lemma unat_capacity_le:
  fixes D N S :: size_t
  shows "unat (D + N * S) \<le> unat D + unat N * unat S"
proof -
  have "unat (D + N * S) \<le> unat D + unat (N * S)"
    by (simp add: unat_word_ariths)
  also have "unat (N * S) \<le> unat N * unat S"
    by (simp add: unat_word_ariths)
  finally show ?thesis by simp
qed

lemma MsgBuffer_of_Buffer_succeeds_iff:
  "(\<exists>m. MsgBuffer_of_Buffer c b D N = Inr m) =
     (Buffer.buf b \<noteq> nullptr \<and> 1 \<le> N \<and> D + N * sizeof_pkthdr_t c \<le> class_size b)"
  by (simp add: MsgBuffer_of_Buffer_def)

subsection \<open>Validity\<close>

text \<open>
  C6. \<open>is_valid()\<close> is true exactly when \<open>buf\<close> is not null and the magic of the
  header that ends where \<open>buf\<close> starts, the one \<open>get_pkthdr_0()\<close> points to at
  \<open>buf - sizeof(pkthdr_t)\<close>, is \<open>kPktHdrMagic\<close>.
\<close>

theorem is_valid_iff:
  "is_valid c mem m =
     (MsgBuffer.buf m \<noteq> nullptr \<and> magic (mem (get_pkthdr_0 c m)) = kPktHdrMagic c)
   \<and> get_pkthdr_0 c m = MsgBuffer.buf m - sizeof_pkthdr_t c"
  by (simp add: is_valid_def get_pkthdr_0_def)

text \<open>
  C1, as the source has it. The constructor from a \<open>Buffer\<close> initialises the members
  of the object and writes nothing to memory, so it does not set the magic. After it,
  \<open>get_pkthdr_0()\<close> is \<open>buffer.buf\<close>, and \<open>is_valid()\<close> is true exactly when \<open>buf\<close>
  is not null and the header already stored at \<open>buffer.buf\<close> carries
  \<open>kPktHdrMagic\<close>.
\<close>

theorem owning_ctor_validity:
  assumes "MsgBuffer_of_Buffer c b D N = Inr m"
  shows "get_pkthdr_0 c m = Buffer.buf b \<and>
         (is_valid c mem m =
            (Buffer.buf b + sizeof_pkthdr_t c \<noteq> nullptr \<and>
             magic (mem (Buffer.buf b)) = kPktHdrMagic c))"
  using ctor_eq [OF assms] by (simp add: is_valid_def get_pkthdr_0_def)

text \<open>On memory whose headers carry the magic, the constructed buffer is valid.\<close>

theorem owning_ctor_validity_witness:
  "MsgBuffer_of_Buffer ex_decls ex_buffer 4096 3 = Inr ex_msgbuf \<and>
   get_pkthdr_0 ex_decls ex_msgbuf = Buffer.buf ex_buffer \<and>
   is_valid ex_decls stamped_memory ex_msgbuf = True"
proof -
  have h: "MsgBuffer_of_Buffer ex_decls ex_buffer 4096 3 = Inr ex_msgbuf"
    by (simp add: MsgBuffer_of_Buffer_def ex_decls_def ex_buffer_def ex_msgbuf_def nullptr_def)
  show ?thesis
    using h owning_ctor_validity [OF h, of stamped_memory]
    by (simp add: ex_decls_def ex_buffer_def stamped_memory_def nullptr_def)
qed

text \<open>
  C1 as stated fails: on memory that holds zeroes the constructor's assertions pass,
  and right after it \<open>is_valid()\<close> is false and the magic of \<open>pkthdr_0\<close> is not
  \<open>kPktHdrMagic\<close>.
\<close>

theorem owning_ctor_magic_counterexample:
  "MsgBuffer_of_Buffer ex_decls ex_buffer 4096 3 = Inr ex_msgbuf \<and>
   is_valid ex_decls zero_memory ex_msgbuf = False \<and>
   magic (zero_memory (get_pkthdr_0 ex_decls ex_msgbuf)) \<noteq> kPktHdrMagic ex_decls"
  by (simp add: MsgBuffer_of_Buffer_def ex_decls_def ex_buffer_def ex_msgbuf_def nullptr_def
      is_valid_def get_pkthdr_0_def zero_memory_def)

subsection \<open>Trailing headers\<close>

text \<open>
  C2, as the source has it. With \<open>base = buffer.buf\<close> the start of the buffer region,
  \<open>buf\<close> is \<open>base + sizeof(pkthdr_t)\<close>, and for \<open>1 \<le> i < N\<close> the address returned by
  \<open>get_pkthdr_n(i)\<close> is
  \<open>base + sizeof(pkthdr_t) + round_up(D) + (i - 1) * sizeof(pkthdr_t)\<close>: with
  \<open>D = 4096\<close> and \<open>N = 3\<close>, header 1 is at \<open>base + sizeof(pkthdr_t) + 4096\<close> and
  header 2 one header further. When the layout lies inside the address space, no
  trailing header overlaps the payload \<open>[buf, buf + D)\<close>.
\<close>

theorem pkthdr_n_address:
  assumes ctor: "MsgBuffer_of_Buffer c b D N = Inr m"
    and i: "1 \<le> i" "i < N"
  shows "get_pkthdr_n c m i =
           Inr (Buffer.buf b + sizeof_pkthdr_t c + round_up sizeof_size_t D +
                (i - 1) * sizeof_pkthdr_t c)
         \<and> (D = 4096 \<and> N = 3 \<longrightarrow>
              get_pkthdr_n c m 1 = Inr (Buffer.buf b + sizeof_pkthdr_t c + 4096) \<and>
              get_pkthdr_n c m 2 =
                Inr (Buffer.buf b + sizeof_pkthdr_t c + 4096 + sizeof_pkthdr_t c))
         \<and> (unat (Buffer.buf b) + layout_size c D N < 2 ^ 64 \<longrightarrow>
              payload_region m \<inter>
              pkthdr_region c (Buffer.buf b + sizeof_pkthdr_t c + round_up sizeof_size_t D +
                               (i - 1) * sizeof_pkthdr_t c) = {})"
proof (intro conjI impI)
  note m = ctor_eq [OF ctor]
  show "get_pkthdr_n c m i =
          Inr (Buffer.buf b + sizeof_pkthdr_t c + round_up sizeof_size_t D +
               (i - 1) * sizeof_pkthdr_t c)"
    using i(1) by (simp add: m get_pkthdr_n_def)
  show "get_pkthdr_n c m 1 = Inr (Buffer.buf b + sizeof_pkthdr_t c + 4096)"
    if "D = 4096 \<and> N = 3"
    using that by (simp add: m get_pkthdr_n_def round_up_4096)
  show "get_pkthdr_n c m 2 =
          Inr (Buffer.buf b + sizeof_pkthdr_t c + 4096 + sizeof_pkthdr_t c)"
    if "D = 4096 \<and> N = 3"
    using that by (simp add: m get_pkthdr_n_def round_up_4096)
  show "payload_region m \<inter>
        pkthdr_region c (Buffer.buf b + sizeof_pkthdr_t c + round_up sizeof_size_t D +
                         (i - 1) * sizeof_pkthdr_t c) = {}"
    if fit: "unat (Buffer.buf b) + layout_size c D N < 2 ^ 64"
  proof -
    let ?S = "sizeof_pkthdr_t c"
    have fit': "unat (Buffer.buf b) +
                (unat ?S + (unat D + 7) div 8 * 8 + (unat N - 1) * unat ?S) < 2 ^ 64"
      using fit by (simp add: layout_size_def)
    have a: "unat (Buffer.buf b + ?S + round_up sizeof_size_t D + (i - 1) * ?S) =
             unat (Buffer.buf b) + unat ?S + (unat D + 7) div 8 * 8 + (unat i - 1) * unat ?S"
      by (rule unat_pkthdr_n [OF i fit'])
    have s: "unat (Buffer.buf b + ?S) = unat (Buffer.buf b) + unat ?S"
      using fit' by (simp add: unat_word_ariths)
    have "unat (Buffer.buf b + ?S) + unat D \<le>
          unat (Buffer.buf b + ?S + round_up sizeof_size_t D + (i - 1) * ?S)"
      using round_up_nat_ge [of "unat D"] by (simp add: a s)
    then show ?thesis
      by (auto simp: m payload_region_def pkthdr_region_def)
  qed
qed

theorem pkthdr_n_address_witness:
  "MsgBuffer_of_Buffer ex_decls ex_buffer 4096 3 = Inr ex_msgbuf \<and>
   (1::size_t) \<le> 2 \<and> (2::size_t) < 3 \<and>
   unat (Buffer.buf ex_buffer) + layout_size ex_decls 4096 3 < 2 ^ 64 \<and>
   get_pkthdr_n ex_decls ex_msgbuf 1 = Inr 1052688 \<and>
   get_pkthdr_n ex_decls ex_msgbuf 2 = Inr 1052704 \<and>
   payload_region ex_msgbuf \<inter> pkthdr_region ex_decls 1052704 = {}"
proof -
  have h: "MsgBuffer_of_Buffer ex_decls ex_buffer 4096 3 = Inr ex_msgbuf"
    by (simp add: MsgBuffer_of_Buffer_def ex_decls_def ex_buffer_def ex_msgbuf_def nullptr_def)
  have i: "(1::size_t) \<le> 2" "(2::size_t) < 3" by simp_all
  have f: "unat (Buffer.buf ex_buffer) + layout_size ex_decls 4096 3 < 2 ^ 64"
    by (simp add: ex_buffer_def ex_decls_def layout_size_def)
  show ?thesis
    using h i f pkthdr_n_address [OF h i]
    by (simp add: ex_buffer_def ex_decls_def round_up_def sizeof_size_t_def)
qed

text \<open>
  C2 as stated fails: measured from the start of the buffer region, header 1 of the
  buffer with \<open>D = 4096\<close> and \<open>N = 3\<close> is at \<open>base + 4096 + 16\<close>, one header past
  \<open>base + round_up(D) + (i - 1) * sizeof(pkthdr_t)\<close>.
\<close>

theorem pkthdr_n_base_counterexample:
  "MsgBuffer_of_Buffer ex_decls ex_buffer 4096 3 = Inr ex_msgbuf \<and>
   get_pkthdr_n ex_decls ex_msgbuf 1 = Inr (Buffer.buf ex_buffer + 4096 + 16) \<and>
   get_pkthdr_n ex_decls ex_msgbuf 1 \<noteq>
     Inr (Buffer.buf ex_buffer + round_up sizeof_size_t 4096 +
          (1 - 1) * sizeof_pkthdr_t ex_decls)"
  by (simp add: MsgBuffer_of_Buffer_def ex_decls_def ex_buffer_def ex_msgbuf_def nullptr_def
      get_pkthdr_n_def round_up_def sizeof_size_t_def)

subsection \<open>Resizing\<close>

text \<open>
  C3. \<open>resize(d', n')\<close> with \<open>d' \<le> max_data_size\<close> and \<open>n' \<le> max_num_pkts\<close> returns the
  buffer with \<open>data_size = d'\<close> and \<open>num_pkts = n'\<close> and every other member as it was.
  It writes nothing to memory, so the magic of \<open>pkthdr_0\<close> and validity are as before,
  and \<open>get_pkthdr_0()\<close> and \<open>get_pkthdr_n(i)\<close>, for every \<open>i\<close>, return the same
  pointers.
\<close>

theorem resize_frame:
  assumes "d' \<le> max_data_size m" "n' \<le> max_num_pkts m"
  shows "\<exists>m'. resize m d' n' = Inr m' \<and>
           m' = m\<lparr>data_size := d', num_pkts := n'\<rparr> \<and>
           data_size m' = d' \<and> num_pkts m' = n' \<and>
           magic (mem (get_pkthdr_0 c m')) = magic (mem (get_pkthdr_0 c m)) \<and>
           is_valid c mem m' = is_valid c mem m \<and>
           get_pkthdr_0 c m' = get_pkthdr_0 c m \<and>
           (\<forall>i. get_pkthdr_n c m' i = get_pkthdr_n c m i) \<and>
           MsgBuffer.buf m' = MsgBuffer.buf m \<and> buffer m' = buffer m \<and>
           max_data_size m' = max_data_size m \<and> max_num_pkts m' = max_num_pkts m \<and>
           pkts_queued m' = pkts_queued m \<and> pkts_rcvd m' = pkts_rcvd m"
  using assms
  by (simp add: resize_def get_pkthdr_0_def get_pkthdr_n_def is_valid_def pkts_rcvd_def)

theorem resize_frame_witness:
  "(1000::size_t) \<le> max_data_size ex_msgbuf \<and> (1::size_t) \<le> max_num_pkts ex_msgbuf \<and>
   resize ex_msgbuf 1000 1 = Inr (ex_msgbuf\<lparr>data_size := 1000, num_pkts := 1\<rparr>) \<and>
   get_pkthdr_n ex_decls (ex_msgbuf\<lparr>data_size := 1000, num_pkts := 1\<rparr>) 2 = Inr 1052704"
proof -
  have h: "(1000::size_t) \<le> max_data_size ex_msgbuf" "(1::size_t) \<le> max_num_pkts ex_msgbuf"
    by (simp_all add: ex_msgbuf_def)
  have g: "get_pkthdr_n ex_decls ex_msgbuf 2 = Inr 1052704"
    by (simp add: get_pkthdr_n_def ex_msgbuf_def ex_decls_def round_up_def sizeof_size_t_def)
  from resize_frame [OF h, where c = ex_decls and mem = zero_memory]
  obtain m' where m': "resize ex_msgbuf 1000 1 = Inr m'"
      "m' = ex_msgbuf\<lparr>data_size := 1000, num_pkts := 1\<rparr>"
      "\<forall>i. get_pkthdr_n ex_decls m' i = get_pkthdr_n ex_decls ex_msgbuf i"
    by blast
  show ?thesis using h m' g by simp
qed

subsection \<open>The constructor from a received packet\<close>

text \<open>
  C7. The constructor from a received packet \<open>pkt\<close>, whose assertion passes when
  \<open>pkt + sizeof(pkthdr_t)\<close> is not null, returns a buffer with \<open>max_num_pkts = 1\<close> and
  \<open>num_pkts = 1\<close>, the invalid \<open>Buffer\<close> as backing buffer and \<open>buf\<close>
  \<open>sizeof(pkthdr_t)\<close> bytes past \<open>pkt\<close>; it is valid exactly when the header at
  \<open>pkt\<close> carries the magic.
\<close>

theorem rx_ctor_borrow:
  assumes "pkt + sizeof_pkthdr_t c \<noteq> nullptr"
  shows "\<exists>m. MsgBuffer_of_pkt c pkt D = Inr m \<and>
           max_num_pkts m = 1 \<and> num_pkts m = 1 \<and>
           buffer m = get_invalid_buffer c \<and>
           MsgBuffer.buf m = pkt + sizeof_pkthdr_t c \<and>
           get_pkthdr_0 c m = pkt \<and>
           is_valid c mem m = (magic (mem pkt) = kPktHdrMagic c)"
  using assms
  by (simp add: MsgBuffer_of_pkt_def Let_def get_pkthdr_0_def is_valid_def)

theorem rx_ctor_borrow_witness:
  "ex_pkt + sizeof_pkthdr_t ex_decls \<noteq> nullptr \<and>
   (\<exists>m. MsgBuffer_of_pkt ex_decls ex_pkt 1472 = Inr m \<and>
        buffer m = get_invalid_buffer ex_decls \<and>
        is_valid ex_decls stamped_memory m \<and> \<not> is_valid ex_decls zero_memory m)"
proof -
  have h: "ex_pkt + sizeof_pkthdr_t ex_decls \<noteq> nullptr"
    by (simp add: ex_pkt_def ex_decls_def nullptr_def)
  from rx_ctor_borrow [OF h, where D = 1472 and mem = stamped_memory]
  obtain m where m: "MsgBuffer_of_pkt ex_decls ex_pkt 1472 = Inr m"
      "buffer m = get_invalid_buffer ex_decls"
      "is_valid ex_decls stamped_memory m =
         (magic (stamped_memory ex_pkt) = kPktHdrMagic ex_decls)"
    by blast
  from rx_ctor_borrow [OF h, where D = 1472 and mem = zero_memory] m(1)
  have z: "is_valid ex_decls zero_memory m =
         (magic (zero_memory ex_pkt) = kPktHdrMagic ex_decls)"
    by auto
  have "is_valid ex_decls stamped_memory m" "\<not> is_valid ex_decls zero_memory m"
    using m(3) z by (simp_all add: stamped_memory_def zero_memory_def ex_decls_def)
  with h m show ?thesis by blast
qed

subsection \<open>Assertions of the constructor from a \<open>Buffer\<close>\<close>

text \<open>
  C8. When \<open>buffer.buf\<close> is not null, \<open>max_num_pkts \<ge> 1\<close> and \<open>class_size\<close> is at
  least \<open>max_data_size + max_num_pkts * sizeof(pkthdr_t)\<close>, no assertion of the
  constructor fires and it returns the Message Buffer. The bound is read over the
  natural numbers; it implies the one the assertion computes in \<open>size_t\<close>.
\<close>

theorem owning_ctor_no_failure:
  assumes "Buffer.buf b \<noteq> nullptr" "1 \<le> N"
    and "unat D + unat N * unat (sizeof_pkthdr_t c) \<le> unat (class_size b)"
  shows "MsgBuffer_of_Buffer c b D N =
           Inr \<lparr>MsgBuffer.buf = Buffer.buf b + sizeof_pkthdr_t c, buffer = b,
                max_data_size = D, data_size = D, max_num_pkts = N, num_pkts = N,
                pkts_queued = 0\<rparr>
         \<and> MsgBuffer_of_Buffer c b D N \<noteq> Inl AssertionFailed"
proof -
  have "D + N * sizeof_pkthdr_t c \<le> class_size b"
    using assms(3) unat_capacity_le [of D N "sizeof_pkthdr_t c"]
    by (simp add: word_le_nat_alt)
  then show ?thesis
    using assms(1,2) by (simp add: MsgBuffer_of_Buffer_def)
qed

theorem owning_ctor_no_failure_witness:
  "Buffer.buf ex_buffer \<noteq> nullptr \<and> (1::size_t) \<le> 3 \<and>
   unat (4096::size_t) + unat (3::size_t) * unat (sizeof_pkthdr_t ex_decls)
     \<le> unat (class_size ex_buffer) \<and>
   MsgBuffer_of_Buffer ex_decls ex_buffer 4096 3 = Inr ex_msgbuf"
proof -
  have h: "Buffer.buf ex_buffer \<noteq> nullptr" "(1::size_t) \<le> 3"
    "unat (4096::size_t) + unat (3::size_t) * unat (sizeof_pkthdr_t ex_decls)
       \<le> unat (class_size ex_buffer)"
    by (simp_all add: ex_buffer_def ex_decls_def nullptr_def)
  show ?thesis
    using h owning_ctor_no_failure [OF h]
    by (simp add: ex_msgbuf_def ex_buffer_def ex_decls_def)
qed

text \<open>
  The assertion counts \<open>max_data_size\<close> without the pad that \<open>round_up\<close> puts before
  the trailing headers: a buffer of class size 33 passes it for 1 byte and 2 packets
  of 16-byte headers, while the layout extends over 40 bytes.
\<close>

lemma asserted_capacity_without_pad:
  "MsgBuffer_of_Buffer ex_decls \<lparr>Buffer.buf = 1048576, class_size = 33\<rparr> 1 2
     \<noteq> Inl AssertionFailed \<and>
   layout_size ex_decls 1 2 = 40"
  by (simp add: MsgBuffer_of_Buffer_def ex_decls_def nullptr_def layout_size_def)

subsection \<open>Sizes after construction\<close>

text \<open>
  C10. After the constructor from a \<open>Buffer\<close>, \<open>data_size = max_data_size\<close>,
  \<open>num_pkts = max_num_pkts\<close> and the progress counter, under either name, is 0; after
  the constructor from a received packet, \<open>data_size = max_data_size\<close>, \<open>num_pkts = 1\<close>
  and the counter is 0. The buffer starts at its maximum logical size.
\<close>

theorem ctor_initial_sizes:
  "(MsgBuffer_of_Buffer c b D N = Inr m \<longrightarrow>
      data_size m = max_data_size m \<and> max_data_size m = D \<and>
      num_pkts m = max_num_pkts m \<and> max_num_pkts m = N \<and>
      get_data_size m = D \<and> pkts_queued m = 0 \<and> pkts_rcvd m = 0)
   \<and> (MsgBuffer_of_pkt c pkt D' = Inr m' \<longrightarrow>
      data_size m' = max_data_size m' \<and> max_data_size m' = D' \<and>
      num_pkts m' = 1 \<and> get_data_size m' = D' \<and>
      pkts_queued m' = 0 \<and> pkts_rcvd m' = 0)"
  by (auto simp: get_data_size_def pkts_rcvd_def dest!: ctor_eq rx_ctor_eq)

theorem ctor_initial_sizes_witness:
  "MsgBuffer_of_Buffer ex_decls ex_buffer 4096 3 = Inr ex_msgbuf \<and>
   MsgBuffer_of_pkt ex_decls ex_pkt 1472 =
     Inr \<lparr>MsgBuffer.buf = 2097168, buffer = get_invalid_buffer ex_decls,
          max_data_size = 1472, data_size = 1472, max_num_pkts = 1, num_pkts = 1,
          pkts_queued = 0\<rparr> \<and>
   data_size ex_msgbuf = 4096 \<and> num_pkts ex_msgbuf = 3 \<and> pkts_queued ex_msgbuf = 0"
proof -
  let ?r = "\<lparr>MsgBuffer.buf = 2097168, buffer = get_invalid_buffer ex_decls,
          max_data_size = 1472, data_size = 1472, max_num_pkts = 1, num_pkts = 1,
          pkts_queued = 0\<rparr>"
  have h: "MsgBuffer_of_Buffer ex_decls ex_buffer 4096 3 = Inr ex_msgbuf"
    by (simp add: MsgBuffer_of_Buffer_def ex_decls_def ex_buffer_def ex_msgbuf_def nullptr_def)
  have r: "MsgBuffer_of_pkt ex_decls ex_pkt 1472 = Inr ?r"
    by (simp add: MsgBuffer_of_pkt_def ex_decls_def ex_pkt_def nullptr_def)
  show ?thesis
    using h r ctor_initial_sizes [where c = ex_decls and b = ex_buffer and D = 4096 and N = 3
          and m = ex_msgbuf and pkt = ex_pkt and D' = 1472 and m' = ?r]
    by simp
qed

section \<open>Properties of the Nexus\<close>

subsection \<open>Peer mode\<close>

text \<open>
  The peers of the control transport stay consistent through every step of the SM
  thread: additions and removals first, then each handler, then a whole run.
\<close>

lemma not_ServerMode: "(m \<noteq> ServerMode) = (m = ClientMode)"
  by (cases m) simp_all

lemma peers_wfD_mode:
  "peers_wf P D \<Longrightarrow> P p = Some pr \<Longrightarrow> (mode pr = ServerMode) = (data (enet pr) = nullptr)"
  unfolding peers_wf_def by (elim conjE allE [where x = p]) (erule allE [where x = pr], simp)

lemma peers_wfD_alloc:
  "peers_wf P D \<Longrightarrow> P p = Some pr \<Longrightarrow> mode pr = ClientMode \<Longrightarrow> data (enet pr) \<in> D"
  unfolding peers_wf_def by simp

lemma peers_wfD_distinct:
  "peers_wf P D \<Longrightarrow> P p = Some pr \<Longrightarrow> P q = Some qr \<Longrightarrow> mode pr = ClientMode \<Longrightarrow>
     mode qr = ClientMode \<Longrightarrow> data (enet pr) = data (enet qr) \<Longrightarrow> p = q"
  unfolding peers_wf_def by simp

lemma peers_wf_empty: "peers_wf Map.empty D"
  by (simp add: peers_wf_def)

lemma peers_wf_mono: "peers_wf P D \<Longrightarrow> D \<subseteq> D' \<Longrightarrow> peers_wf P D'"
  unfolding peers_wf_def by blast

lemma peers_wf_add_server:
  assumes "peers_wf P D" and x: "mode x = ServerMode" "data (enet x) = nullptr"
  shows "peers_wf (P(p \<mapsto> x)) D"
  unfolding peers_wf_def
proof (intro conjI allI impI)
  fix q qr
  assume "(P(p \<mapsto> x)) q = Some qr"
  then have "qr = x \<or> P q = Some qr"
    by (auto split: if_splits)
  then show "(mode qr = ServerMode) = (data (enet qr) = nullptr)"
  proof
    assume "qr = x"
    then show ?thesis using x by simp
  next
    assume "P q = Some qr"
    then show ?thesis by (rule peers_wfD_mode [OF assms(1)])
  qed
next
  fix q qr
  assume "(P(p \<mapsto> x)) q = Some qr"
    "mode qr = ClientMode"
  then have "P q = Some qr" using x(1) by (auto split: if_splits)
  then show "data (enet qr) \<in> D"
    using \<open>mode qr = ClientMode\<close> by (rule peers_wfD_alloc [OF assms(1)])
next
  fix q r qr rr
  assume "(P(p \<mapsto> x)) q = Some qr"
    "(P(p \<mapsto> x)) r = Some rr"
    and m: "mode qr = ClientMode" "mode rr = ClientMode" "data (enet qr) = data (enet rr)"
  then have "P q = Some qr" "P r = Some rr" using x(1) by (auto split: if_splits)
  then show "q = r"
    using m by (rule peers_wfD_distinct [OF assms(1)])
qed

lemma peers_wf_add_client:
  assumes wf: "peers_wf P D" and nd: "nd \<noteq> nullptr" "nd \<notin> D"
    and x: "mode x = ClientMode" "data (enet x) = nd"
  shows "peers_wf (P(p \<mapsto> x)) (insert nd D)"
  unfolding peers_wf_def
proof (intro conjI allI impI)
  let ?P = "P(p \<mapsto> x)"
  fix q qr
  assume "?P q = Some qr"
  then have "qr = x \<or> P q = Some qr"
    by (auto split: if_splits)
  then show "(mode qr = ServerMode) = (data (enet qr) = nullptr)"
  proof
    assume "qr = x"
    then show ?thesis using nd(1) x by simp
  next
    assume "P q = Some qr"
    then show ?thesis by (rule peers_wfD_mode [OF wf])
  qed
next
  let ?P = "P(p \<mapsto> x)"
  fix q qr
  assume "?P q = Some qr" and m: "mode qr = ClientMode"
  then have "qr = x \<or> P q = Some qr"
    by (auto split: if_splits)
  then show "data (enet qr) \<in> insert nd D"
  proof
    assume "qr = x"
    then show ?thesis using x by simp
  next
    assume "P q = Some qr"
    then have "data (enet qr) \<in> D" using m by (rule peers_wfD_alloc [OF wf])
    then show ?thesis by simp
  qed
next
  let ?P = "P(p \<mapsto> x)"
  fix q r qr rr
  assume q: "?P q = Some qr" and r: "?P r = Some rr"
    and m: "mode qr = ClientMode" "mode rr = ClientMode" "data (enet qr) = data (enet rr)"
  have old: "data (enet x) \<in> D" if "P y = Some x" "mode x = ClientMode" for x y
    using that by (rule peers_wfD_alloc [OF wf])
  show "q = r"
  proof (cases "q = p")
    case True
    then have qr: "data (enet qr) = nd" using q x by auto
    show ?thesis
    proof (cases "r = p")
      case True
      with \<open>q = p\<close> show ?thesis by simp
    next
      case False
      then have "P r = Some rr" using r by auto
      then have "data (enet rr) \<in> D" using m(2) by (rule old)
      then show ?thesis using qr m(3) nd(2) by simp
    qed
  next
    case False
    then have Pq: "P q = Some qr" using q by auto
    show ?thesis
    proof (cases "r = p")
      case True
      then have "data (enet rr) = nd" using r x by auto
      moreover have "data (enet qr) \<in> D" using Pq m(1) by (rule old)
      ultimately show ?thesis using m(3) nd(2) by simp
    next
      case False
      then have "P r = Some rr" using r by auto
      then show ?thesis using m by (rule peers_wfD_distinct [OF wf Pq])
    qed
  qed
qed

lemma peers_wf_remove_server:
  assumes "peers_wf P D"
  shows "peers_wf (P(p := None)) D"
  using assms unfolding peers_wf_def
  by (simp split: if_splits)

lemma peers_wf_remove_client:
  assumes wf: "peers_wf P D" and p: "P p = Some pr" "data (enet pr) \<noteq> nullptr"
  shows "peers_wf (P(p := None)) (D - {data (enet pr)})"
  unfolding peers_wf_def
proof (intro conjI allI impI)
  fix q qr
  assume "(P(p := None)) q = Some qr"
  then have "P q = Some qr" by (auto split: if_splits)
  then show "(mode qr = ServerMode) = (data (enet qr) = nullptr)"
    by (rule peers_wfD_mode [OF wf])
next
  fix q qr
  assume a: "(P(p := None)) q = Some qr" and m: "mode qr = ClientMode"
  then have q: "q \<noteq> p" "P q = Some qr" by (auto split: if_splits)
  have c: "mode pr = ClientMode"
    using peers_wfD_mode [OF wf p(1)] p(2) by (simp add: not_ServerMode [symmetric])
  have "data (enet qr) \<noteq> data (enet pr)"
    using peers_wfD_distinct [OF wf q(2) p(1) m c] q(1) by blast
  moreover have "data (enet qr) \<in> D"
    using q(2) m by (rule peers_wfD_alloc [OF wf])
  ultimately show "data (enet qr) \<in> D - {data (enet pr)}" by simp
next
  fix q r qr rr
  assume "(P(p := None)) q = Some qr" "(P(p := None)) r = Some rr"
    and m: "mode qr = ClientMode" "mode rr = ClientMode" "data (enet qr) = data (enet rr)"
  then have "P q = Some qr" "P r = Some rr" by (auto split: if_splits)
  then show "q = r" using m by (rule peers_wfD_distinct [OF wf])
qed


lemma peers_consistent_new: "peers_consistent SmThreadCtx_new"
  by (simp add: peers_consistent_def SmThreadCtx_new_def peers_wf_empty)

lemma tx_item_consistent:
  assumes inv: "peers_consistent ctx" and st: "sm_thread_tx_item np nd wi ctx = Inr ctx'"
  shows "peers_consistent ctx'"
proof (cases "name_map ctx (dest_hostname (sm_pkt wi))")
  case None
  let ?x = "\<lparr>enet = \<lparr>data = nd\<rparr>, mode = ClientMode\<rparr>"
  from st None have g: "nd \<noteq> nullptr" "peer_data ctx nd = None"
    and P: "peers ctx' = (peers ctx)(np \<mapsto> ?x)"
    and D: "dom (peer_data ctx') = insert nd (dom (peer_data ctx))"
    by (auto simp: sm_thread_tx_item_def split: if_splits)
  have "nd \<notin> dom (peer_data ctx)" using g(2) by (simp add: domIff)
  then have "peers_wf ((peers ctx)(np \<mapsto> ?x)) (insert nd (dom (peer_data ctx)))"
    using inv g(1) by (intro peers_wf_add_client) (simp_all add: peers_consistent_def)
  then show ?thesis by (simp add: peers_consistent_def P D)
next
  case (Some p)
  from st Some obtain pr d where pr: "peers ctx p = Some pr"
    and d: "peer_data ctx (data (enet pr)) = Some d"
    by (auto simp: sm_thread_tx_item_def split: option.splits)
  from st Some pr d have P: "peers ctx' = peers ctx"
    and D: "dom (peer_data ctx) \<subseteq> dom (peer_data ctx')"
    by (auto simp: sm_thread_tx_item_def sm_thread_tx_and_free_def split: if_splits)
  show ?thesis
    using inv peers_wf_mono [OF _ D] by (simp add: peers_consistent_def P)
qed

lemma accept_consistent:
  assumes "peers_consistent ctx"
  shows "peers_consistent (enet_accept p ctx)"
  using assms peers_wf_add_server [of "peers ctx" "dom (peer_data ctx)"
      "\<lparr>enet = \<lparr>data = nullptr\<rparr>, mode = ServerMode\<rparr>" p]
  by (simp add: peers_consistent_def enet_accept_def)

lemma connect_consistent:
  assumes inv: "peers_consistent ctx" and st: "sm_thread_handle_connect p ctx = Inr ctx'"
  shows "peers_consistent ctx'"
proof -
  from st have P: "peers ctx' = peers ctx"
    and D: "dom (peer_data ctx) \<subseteq> dom (peer_data ctx')"
    by (auto simp: sm_thread_handle_connect_def split: option.splits if_splits)
  show ?thesis
    using inv peers_wf_mono [OF _ D] by (simp add: peers_consistent_def P)
qed

lemma receive_consistent:
  assumes inv: "peers_consistent ctx" and st: "sm_thread_handle_receive nx p pkt ctx = Inr ctx'"
  shows "peers_consistent ctx'"
proof -
  from st have "peers ctx' = peers ctx" "peer_data ctx' = peer_data ctx"
    by (auto simp: sm_thread_handle_receive_def split: option.splits if_splits)
  then show ?thesis using inv by (simp add: peers_consistent_def)
qed

lemma disconnect_consistent:
  assumes inv: "peers_consistent ctx" and st: "sm_thread_handle_disconnect p ctx = Inr ctx'"
  shows "peers_consistent ctx'"
proof -
  from st obtain pr where pr: "peers ctx p = Some pr"
    by (auto simp: sm_thread_handle_disconnect_def split: option.splits)
  have wf: "peers_wf (peers ctx) (dom (peer_data ctx))"
    using inv by (simp add: peers_consistent_def)
  show ?thesis
  proof (cases "data (enet pr) = nullptr")
    case True
    with st pr have "peers ctx' = (peers ctx)(p := None)" "peer_data ctx' = peer_data ctx"
      by (auto simp: sm_thread_handle_disconnect_def sm_is_peer_mode_server_def)
    then show ?thesis
      using peers_wf_remove_server [OF wf, of p] by (simp add: peers_consistent_def)
  next
    case False
    with st pr have c: "peers ctx' = (peers ctx)(p := None)"
      "peer_data ctx' = (peer_data ctx)(data (enet pr) := None)"
      by (auto simp: sm_thread_handle_disconnect_def sm_is_peer_mode_server_def
          split: option.splits)
    then have "peers ctx' = (peers ctx)(p := None)"
      "dom (peer_data ctx') = dom (peer_data ctx) - {data (enet pr)}"
      by simp_all
    then show ?thesis
      using peers_wf_remove_client [OF wf pr False] by (simp add: peers_consistent_def)
  qed
qed

lemma step_consistent:
  assumes inv: "peers_consistent ctx" and st: "sm_thread_step nx ev ctx = Inr ctx'"
  shows "peers_consistent ctx'"
proof (cases ev)
  case (EvTx wi np nd)
  then show ?thesis using inv st tx_item_consistent by simp
next
  case (EvConnect p)
  show ?thesis
  proof (cases "peers ctx p")
    case None
    then have "sm_thread_handle_connect p (enet_accept p ctx) = Inr ctx'"
      using st EvConnect by (simp split: if_splits)
    then show ?thesis
      by (rule connect_consistent [OF accept_consistent [OF inv]])
  next
    case (Some pr)
    then have "sm_thread_handle_connect p ctx = Inr ctx'"
      using st EvConnect by simp
    then show ?thesis by (rule connect_consistent [OF inv])
  qed
next
  case (EvReceive p pkt)
  then show ?thesis using inv st receive_consistent by simp
next
  case (EvDisconnect p)
  then show ?thesis using inv st disconnect_consistent by simp
qed

lemma run_consistent:
  "peers_consistent ctx \<Longrightarrow> sm_thread_run nx evs ctx = Inr ctx' \<Longrightarrow> peers_consistent ctx'"
proof (induction evs arbitrary: ctx)
  case Nil
  then show ?case by simp
next
  case (Cons ev evs)
  from Cons.prems(2) obtain c1 where c1: "sm_thread_step nx ev ctx = Inr c1"
      "sm_thread_run nx evs c1 = Inr ctx'"
    by (auto split: sum.splits)
  show ?case
    by (rule Cons.IH [OF step_consistent [OF Cons.prems(1) c1(1)] c1(2)])
qed

text \<open>
  C9. \<open>sm_is_peer_mode_server(e)\<close> is true exactly when the peer's \<open>data\<close> pointer is
  null. After any run of the SM thread, for every live peer of the control transport,
  the function tells its mode: it is true exactly for the server-mode, inbound, peers,
  whose pointer is null, and every client-mode peer has a pointer that is not null and
  is the address of its allocated metadata.
\<close>

theorem peer_mode_discriminator:
  "sm_is_peer_mode_server e = (data e = nullptr) \<and>
   (sm_thread_run nx evs SmThreadCtx_new = Inr ctx \<and> peers ctx p = Some pr \<longrightarrow>
      sm_is_peer_mode_server (enet pr) = (mode pr = ServerMode) \<and>
      (data (enet pr) = nullptr) = (mode pr = ServerMode) \<and>
      (mode pr = ClientMode \<longrightarrow>
         data (enet pr) \<noteq> nullptr \<and> peer_data ctx (data (enet pr)) \<noteq> None))"
proof (intro conjI impI)
  show "sm_is_peer_mode_server e = (data e = nullptr)"
    by (simp add: sm_is_peer_mode_server_def)
next
  assume a: "sm_thread_run nx evs SmThreadCtx_new = Inr ctx \<and> peers ctx p = Some pr"
  then have run: "sm_thread_run nx evs SmThreadCtx_new = Inr ctx"
    and pr: "peers ctx p = Some pr" by simp_all
  have wf: "peers_wf (peers ctx) (dom (peer_data ctx))"
    using run_consistent [OF peers_consistent_new run] by (simp add: peers_consistent_def)
  show s: "(data (enet pr) = nullptr) = (mode pr = ServerMode)"
    using peers_wfD_mode [OF wf pr] by simp
  show "sm_is_peer_mode_server (enet pr) = (mode pr = ServerMode)"
    using s by (simp add: sm_is_peer_mode_server_def)
  show "data (enet pr) \<noteq> nullptr" if "mode pr = ClientMode"
    using s that by simp
  show "peer_data ctx (data (enet pr)) \<noteq> None" if "mode pr = ClientMode"
    using peers_wfD_alloc [OF wf pr that] by (simp add: domIff)
qed


lemma ex_sm_run: "sm_thread_run ex_nexus_closed ex_sm_events SmThreadCtx_new = Inr ex_sm_ctx"
  by (simp add: ex_sm_events_def SmThreadCtx_new_def ex_sm_ctx_def sm_thread_tx_item_def
      sm_thread_handle_connect_def enet_accept_def sm_thread_handle_receive_def
      sm_is_peer_mode_server_def rpc_id_exists_def ex_nexus_closed_def ex_tx_item_def
      ex_tx_pkt_def ex_rx_pkt_def ex_client_peer_def ex_server_peer_def nullptr_def)

theorem peer_mode_discriminator_witness:
  "sm_thread_run ex_nexus_closed ex_sm_events SmThreadCtx_new = Inr ex_sm_ctx \<and>
   peers ex_sm_ctx 7340032 = Some ex_client_peer \<and>
   peers ex_sm_ctx 7344128 = Some ex_server_peer \<and>
   mode ex_client_peer = ClientMode \<and>
   \<not> sm_is_peer_mode_server (enet ex_client_peer) \<and>
   data (enet ex_client_peer) \<noteq> nullptr \<and>
   peer_data ex_sm_ctx (data (enet ex_client_peer)) \<noteq> None \<and>
   mode ex_server_peer = ServerMode \<and>
   sm_is_peer_mode_server (enet ex_server_peer)"
proof -
  have c: "peers ex_sm_ctx 7340032 = Some ex_client_peer" "mode ex_client_peer = ClientMode"
    by (simp_all add: ex_sm_ctx_def ex_client_peer_def)
  have s: "peers ex_sm_ctx 7344128 = Some ex_server_peer" "mode ex_server_peer = ServerMode"
    by (simp_all add: ex_sm_ctx_def ex_server_peer_def)
  show ?thesis
    using ex_sm_run c s
      peer_mode_discriminator [where nx = ex_nexus_closed and evs = ex_sm_events
        and ctx = ex_sm_ctx and p = 7340032 and pr = ex_client_peer]
      peer_mode_discriminator [where nx = ex_nexus_closed and evs = ex_sm_events
        and ctx = ex_sm_ctx and p = 7344128 and pr = ex_server_peer]
    by simp
qed

subsection \<open>Invariants of a run\<close>

lemma step_allowed:
  "nexus_step op s = Inr s' \<Longrightarrow>
     req_func_registration_allowed s' =
       (req_func_registration_allowed s \<and> \<not> is_RegisterHook op)"
  by (cases op)
     (auto simp: register_req_func_def register_hook_def unregister_hook_def Let_def
           split: if_splits sum.splits)

lemma run_allowed:
  "nexus_run ops s = Inr s' \<Longrightarrow>
     req_func_registration_allowed s' =
       (req_func_registration_allowed s \<and> (\<forall>op\<in>set ops. \<not> is_RegisterHook op))"
proof (induction ops arbitrary: s)
  case Nil
  then show ?case by simp
next
  case (Cons op ops)
  from Cons.prems obtain s1 where s1: "nexus_step op s = Inr s1" "nexus_run ops s1 = Inr s'"
    by (auto split: sum.splits)
  show ?case
    using Cons.IH [OF s1(2)] step_allowed [OF s1(1)] by auto
qed

lemma run_append:
  "nexus_run (xs @ ys) s = Inr s' \<longleftrightarrow>
     (\<exists>s1. nexus_run xs s = Inr s1 \<and> nexus_run ys s1 = Inr s')"
  by (induction xs arbitrary: s) (auto split: sum.splits)

lemma closed_rejects:
  "\<not> req_func_registration_allowed s \<Longrightarrow>
     register_req_func t f s = (Inl RegistrationClosed, s)"
  by (simp add: register_req_func_def)

lemma step_closed_table:
  "nexus_step op s = Inr s' \<Longrightarrow> \<not> req_func_registration_allowed s \<Longrightarrow>
     req_func_arr s' = req_func_arr s"
  by (cases op)
     (auto simp: register_req_func_def register_hook_def unregister_hook_def Let_def
           split: if_splits sum.splits)

lemma step_hook_table:
  "nexus_step (RegisterHook h) s = Inr s' \<Longrightarrow> req_func_arr s' = req_func_arr s"
  by (auto simp: register_hook_def Let_def split: if_splits sum.splits)

lemma run_closed_table:
  "nexus_run ops s = Inr s' \<Longrightarrow> \<not> req_func_registration_allowed s \<Longrightarrow>
     req_func_arr s' = req_func_arr s"
proof (induction ops arbitrary: s)
  case Nil
  then show ?case by simp
next
  case (Cons op ops)
  from Cons.prems(1) obtain s1 where s1: "nexus_step op s = Inr s1" "nexus_run ops s1 = Inr s'"
    by (auto split: sum.splits)
  have "\<not> req_func_registration_allowed s1"
    using step_allowed [OF s1(1)] Cons.prems(2) by simp
  then show ?case
    using Cons.IH [OF s1(2)] step_closed_table [OF s1(1) Cons.prems(2)] by simp
qed

lemma step_slot_kept:
  "nexus_step op s = Inr s' \<Longrightarrow> req_func (req_func_arr s t) \<noteq> nullptr \<Longrightarrow>
     req_func_arr s' t = req_func_arr s t"
  by (cases op)
     (auto simp: register_req_func_def register_hook_def unregister_hook_def Let_def
           split: if_splits sum.splits)

lemma run_slot_kept:
  "nexus_run ops s = Inr s' \<Longrightarrow> req_func (req_func_arr s t) \<noteq> nullptr \<Longrightarrow>
     req_func_arr s' t = req_func_arr s t"
proof (induction ops arbitrary: s)
  case Nil
  then show ?case by simp
next
  case (Cons op ops)
  from Cons.prems(1) obtain s1 where s1: "nexus_step op s = Inr s1" "nexus_run ops s1 = Inr s'"
    by (auto split: sum.splits)
  have k: "req_func_arr s1 t = req_func_arr s t"
    by (rule step_slot_kept [OF s1(1) Cons.prems(2)])
  then have "req_func (req_func_arr s1 t) \<noteq> nullptr"
    using Cons.prems(2) by simp
  from Cons.IH [OF s1(2) this] k show ?case by simp
qed

lemma ex_register_1: "register_req_func 1 ex_handler ex_nexus = (Inr (), ex_nexus_1)"
  by (simp add: register_req_func_def ex_nexus_def ex_nexus_1_def Nexus_new_def
      ex_handler_def nullptr_def)

lemma ex_register_hook:
  "register_hook ex_hook ex_nexus_1 = Inr (ex_hook_installed, ex_nexus_closed)"
  by (simp add: register_hook_def ex_nexus_def ex_nexus_1_def ex_nexus_closed_def
      Nexus_new_def ex_hook_def ex_hook_installed_def Let_def)

subsection \<open>Closing of the registration window\<close>

text \<open>
  C4. From a new Nexus, run any calls \<open>pre\<close>, then a \<open>register_hook\<close> that succeeds,
  then any calls \<open>post\<close>. Before the hook is registered the flag
  \<open>req_func_registration_allowed\<close> is true exactly when \<open>pre\<close> registered no hook, so
  it is true up to the first successful \<open>register_hook\<close>; right after it the flag is
  false, and it is false after every \<open>post\<close>. There every \<open>register_req_func\<close>
  returns the registration-closed error and leaves the Nexus as it was, and the table
  is the one present when the hook was registered.
\<close>

theorem registration_window_closes:
  assumes pre: "nexus_run pre (Nexus_new sm_tx bg_lists) = Inr s0"
    and hook: "register_hook h s0 = Inr (h', s1)"
    and post: "nexus_run post s1 = Inr s'"
  shows "req_func_registration_allowed s0 = (\<forall>op\<in>set pre. \<not> is_RegisterHook op) \<and>
         \<not> req_func_registration_allowed s1 \<and>
         \<not> req_func_registration_allowed s' \<and>
         register_req_func t f s' = (Inl RegistrationClosed, s') \<and>
         req_func_arr s' = req_func_arr s0"
proof -
  have st: "nexus_step (RegisterHook h) s0 = Inr s1"
    using hook by simp
  have c0: "req_func_registration_allowed s0 = (\<forall>op\<in>set pre. \<not> is_RegisterHook op)"
    using run_allowed [OF pre] by (simp add: Nexus_new_def)
  have c1: "\<not> req_func_registration_allowed s1"
    using step_allowed [OF st] by simp
  have c2: "\<not> req_func_registration_allowed s'"
    using run_allowed [OF post] c1 by simp
  have c3: "req_func_arr s' = req_func_arr s0"
    using run_closed_table [OF post c1] step_hook_table [OF st] by simp
  show ?thesis
    using c0 c1 c2 c3 closed_rejects [OF c2] by simp
qed

theorem registration_window_closes_witness:
  "nexus_run [RegisterReqFunc 1 ex_handler] (Nexus_new 6291456 [6295552, 6299648])
     = Inr ex_nexus_1 \<and>
   register_hook ex_hook ex_nexus_1 = Inr (ex_hook_installed, ex_nexus_closed) \<and>
   nexus_run [RegisterReqFunc 2 ex_handler, RpcIdExists 5] ex_nexus_closed
     = Inr ex_nexus_closed \<and>
   req_func_registration_allowed ex_nexus_1 \<and>
   \<not> req_func_registration_allowed ex_nexus_closed \<and>
   register_req_func 2 ex_handler ex_nexus_closed = (Inl RegistrationClosed, ex_nexus_closed)"
proof -
  have pre: "nexus_run [RegisterReqFunc 1 ex_handler] (Nexus_new 6291456 [6295552, 6299648])
     = Inr ex_nexus_1"
    using ex_register_1 by (simp add: ex_nexus_def)
  have closed: "\<not> req_func_registration_allowed ex_nexus_closed"
    by (simp add: ex_nexus_closed_def)
  have post: "nexus_run [RegisterReqFunc 2 ex_handler, RpcIdExists 5] ex_nexus_closed
     = Inr ex_nexus_closed"
    using closed by (simp add: register_req_func_def)
  show ?thesis
    using pre ex_register_hook post
      registration_window_closes [OF pre ex_register_hook post, of 2 ex_handler]
    by simp
qed

subsection \<open>Outcomes of \<open>register_req_func\<close>\<close>

text \<open>
  C5. \<open>register_req_func(req_type, handler)\<close> succeeds exactly when registration is
  allowed, the slot is unoccupied and the handler is not empty, and then installs the
  handler in the slot. Closed registration, an occupied slot and an empty handler each
  give their error and leave the Nexus, the table with it, unchanged. After a success
  on \<open>req_type\<close> the slot keeps the handler through every later call, and every later
  \<open>register_req_func\<close> on \<open>req_type\<close> fails and changes nothing.
\<close>

theorem register_req_func_outcomes:
  "(fst (register_req_func t f s) = Inr ()) =
      (req_func_registration_allowed s \<and> req_func (req_func_arr s t) = nullptr \<and>
       req_func f \<noteq> nullptr)
   \<and> (fst (register_req_func t f s) = Inr () \<longrightarrow>
        snd (register_req_func t f s) = s\<lparr>req_func_arr := (req_func_arr s)(t := f)\<rparr>)
   \<and> (\<not> req_func_registration_allowed s \<longrightarrow>
        register_req_func t f s = (Inl RegistrationClosed, s))
   \<and> (req_func_registration_allowed s \<and> req_func (req_func_arr s t) \<noteq> nullptr \<longrightarrow>
        register_req_func t f s = (Inl SlotOccupied, s))
   \<and> (req_func_registration_allowed s \<and> req_func (req_func_arr s t) = nullptr \<and>
       req_func f = nullptr \<longrightarrow>
        register_req_func t f s = (Inl InvalidHandler, s))
   \<and> (\<forall>e. fst (register_req_func t f s) = Inl e \<longrightarrow>
        snd (register_req_func t f s) = s)
   \<and> (\<forall>s1 ops s2 f2.
        register_req_func t f s = (Inr (), s1) \<and> nexus_run ops s1 = Inr s2 \<longrightarrow>
          req_func_arr s2 t = f \<and>
          fst (register_req_func t f2 s2) \<in> {Inl RegistrationClosed, Inl SlotOccupied} \<and>
          snd (register_req_func t f2 s2) = s2)"
proof (intro conjI allI impI)
  fix s1 ops s2 f2
  assume a: "register_req_func t f s = (Inr (), s1) \<and> nexus_run ops s1 = Inr s2"
  then have s1: "s1 = s\<lparr>req_func_arr := (req_func_arr s)(t := f)\<rparr>" and f: "req_func f \<noteq> nullptr"
    by (auto simp: register_req_func_def split: if_splits)
  have occ: "req_func (req_func_arr s1 t) \<noteq> nullptr"
    using f by (simp add: s1)
  from a have run: "nexus_run ops s1 = Inr s2" by simp
  have k: "req_func_arr s2 t = req_func_arr s1 t"
    by (rule run_slot_kept [OF run occ])
  show "req_func_arr s2 t = f" using k by (simp add: s1)
  show "fst (register_req_func t f2 s2) \<in> {Inl RegistrationClosed, Inl SlotOccupied}"
    using k occ by (simp add: register_req_func_def)
  show "snd (register_req_func t f2 s2) = s2"
    using k occ by (simp add: register_req_func_def)
qed (auto simp: register_req_func_def split: if_splits)

theorem register_req_func_outcomes_witness:
  "register_req_func 1 ex_handler ex_nexus = (Inr (), ex_nexus_1) \<and>
   nexus_run [RpcIdExists 5, UnregisterHook ex_hook] ex_nexus_1 = Inr ex_nexus_1 \<and>
   register_req_func 1 ex_handler ex_nexus_1 = (Inl SlotOccupied, ex_nexus_1) \<and>
   register_req_func 2 ex_empty_handler ex_nexus = (Inl InvalidHandler, ex_nexus) \<and>
   register_req_func 2 ex_handler ex_nexus_closed = (Inl RegistrationClosed, ex_nexus_closed)"
proof -
  have a: "req_func_registration_allowed ex_nexus"
    "req_func (req_func_arr ex_nexus 2) = nullptr" "req_func ex_empty_handler = nullptr"
    by (simp_all add: ex_nexus_def Nexus_new_def ex_empty_handler_def)
  have b: "req_func_registration_allowed ex_nexus_1"
    "req_func (req_func_arr ex_nexus_1 1) \<noteq> nullptr"
    by (simp_all add: ex_nexus_1_def ex_nexus_def Nexus_new_def ex_handler_def nullptr_def)
  have c: "\<not> req_func_registration_allowed ex_nexus_closed"
    by (simp add: ex_nexus_closed_def)
  have r: "nexus_run [RpcIdExists 5, UnregisterHook ex_hook] ex_nexus_1 = Inr ex_nexus_1"
    by (simp add: unregister_hook_def ex_nexus_1_def ex_nexus_def Nexus_new_def ex_hook_def)
  have "fst (register_req_func 1 ex_handler ex_nexus_1)
          \<in> {Inl RegistrationClosed, Inl SlotOccupied} \<and>
        snd (register_req_func 1 ex_handler ex_nexus_1) = ex_nexus_1"
    using register_req_func_outcomes [of 1 ex_handler ex_nexus] ex_register_1 r by blast
  moreover have "register_req_func 1 ex_handler ex_nexus_1 = (Inl SlotOccupied, ex_nexus_1)"
    using register_req_func_outcomes [of 1 ex_handler ex_nexus_1] b by blast
  moreover have "register_req_func 2 ex_empty_handler ex_nexus = (Inl InvalidHandler, ex_nexus)"
    using register_req_func_outcomes [of 2 ex_empty_handler ex_nexus] a by blast
  moreover have "register_req_func 2 ex_handler ex_nexus_closed
                   = (Inl RegistrationClosed, ex_nexus_closed)"
    using register_req_func_outcomes [of 2 ex_handler ex_nexus_closed] c by blast
  ultimately show ?thesis
    using ex_register_1 r by simp
qed

end
